theory Spec2Isabelle
  imports Main
begin

section \<open>Text: the operations of Python's \<open>str\<close> that \<open>main.py\<close> uses\<close>

text \<open>
  A Python \<open>str\<close> is a sequence of code points. The model covers the code points
  U+0000 to U+00FF: a \<^typ>\<open>char\<close> is read as the code point with the same number, and a
  \<^typ>\<open>string\<close> as the sequence of them. On this range \<open>str.lower()\<close> maps each code
  point to one code point: it adds 32 to the capital letters \<open>A\<close> to \<open>Z\<close> (65 to 90) and to the
  capital letters of the Latin-1 block (192 to 222, the multiplication sign 215 apart) and
  leaves every other code point as it is.
\<close>

definition lower_char :: "char \<Rightarrow> char" where
  "lower_char c =
     (let n = (of_char c :: nat)
      in if (65 \<le> n \<and> n \<le> 90) \<or> (192 \<le> n \<and> n \<le> 222 \<and> n \<noteq> 215)
         then char_of (n + 32) else c)"

definition lower :: "string \<Rightarrow> string" where
  "lower s = map lower_char s"

text \<open>
  \<open>str.strip()\<close> without argument removes the leading and the trailing white space. The
  white space below U+0100 is: 9 to 13 (tab, line feed, vertical tab, form feed, carriage
  return), 28 to 31 (the separators), 32 (space), 133 (next line) and 160 (no-break space).
\<close>

definition isspace :: "char \<Rightarrow> bool" where
  "isspace c =
     (let n = (of_char c :: nat)
      in (9 \<le> n \<and> n \<le> 13) \<or> (28 \<le> n \<and> n \<le> 32) \<or> n = 133 \<or> n = 160)"

definition strip :: "string \<Rightarrow> string" where
  "strip s = rev (dropWhile isspace (rev (dropWhile isspace s)))"

text \<open>
  \<open>sub in s\<close> on two strings: \<open>sub\<close> occurs in \<open>s\<close> as a contiguous run. The search tries
  every start position of \<open>s\<close> from the left, the position after the last character
  included (where only the empty string is found).
\<close>

fun startswith :: "string \<Rightarrow> string \<Rightarrow> bool" where
  "startswith s [] = True"
| "startswith [] (p # ps) = False"
| "startswith (c # cs) (p # ps) = (c = p \<and> startswith cs ps)"

fun str_in :: "string \<Rightarrow> string \<Rightarrow> bool" where
  "str_in sub [] = (sub = [])"
| "str_in sub (c # cs) = (startswith (c # cs) sub \<or> str_in sub cs)"

section \<open>The data model\<close>

text \<open>
  \<open>NotaBase\<close> is the request body, \<open>NotaCreate\<close> is \<open>NotaBase\<close> under another name, and
  \<open>Nota\<close> extends it with the two time stamps. \<open>categoria\<close> and \<open>importante\<close> are declared
  \<open>Optional\<close>: a request may carry \<open>null\<close> for them, which is \<^const>\<open>None\<close> here; a request
  that leaves them out gets the defaults \<open>Some ''General''\<close> and \<open>Some False\<close> before the
  handler runs. A \<open>datetime\<close> is a point on the time line, an integer number of
  microseconds.
\<close>

record NotaBase =
  titulo :: string
  contenido :: string
  autor :: string
  categoria :: "string option"
  importante :: "bool option"

type_synonym NotaCreate = NotaBase

record Nota = NotaBase +
  fecha_creacion :: int
  fecha_actualizacion :: int

text \<open>
  The handlers raise \<open>HTTPException\<close> with a status code and a detail message; each
  constructor is one of the four messages of the source. \<open>AttributeError\<close> is what
  \<open>n.categoria.lower()\<close> raises when the category of a stored note is \<open>None\<close>.
\<close>

datatype error =
    TituloRequerido      \<comment> \<open>400, "El titulo es requerido"\<close>
  | ContenidoRequerido   \<comment> \<open>400, "El contenido es requerido"\<close>
  | TituloDuplicado      \<comment> \<open>400, "Ya existe una nota con ese titulo"\<close>
  | NoEncontrada         \<comment> \<open>404, "Nota no encontrada"\<close>
  | AttributeError

fun status_code :: "error \<Rightarrow> nat" where
  "status_code TituloRequerido = 400"
| "status_code ContenidoRequerido = 400"
| "status_code TituloDuplicado = 400"
| "status_code NoEncontrada = 404"
| "status_code AttributeError = 500"

text \<open>
  The spec's error kinds: \<open>InvalidInput\<close> is \<^const>\<open>TituloRequerido\<close> or
  \<^const>\<open>ContenidoRequerido\<close>, \<open>Conflict\<close> is \<^const>\<open>TituloDuplicado\<close>, \<open>NotFound\<close> is
  \<^const>\<open>NoEncontrada\<close>.
\<close>

section \<open>The handlers\<close>

text \<open>
  \<open>notas_db\<close>, the module's list, is the state. A handler that changes it takes the list
  and returns its result together with the list as it is when the handler returns or
  raises; a handler that only reads returns its result. \<open>datetime.now()\<close> is the argument
  \<open>ahora\<close> of the two handlers that call it (each calls it once).
\<close>

subsection \<open>\<open>obtener_notas\<close>\<close>

text \<open>
  The comprehension of the category filter calls \<open>n.categoria.lower()\<close> on each note in
  turn, and raises at the first one whose category is \<open>None\<close>.
\<close>

fun filtrar_categoria :: "string \<Rightarrow> Nota list \<Rightarrow> error + Nota list" where
  "filtrar_categoria cat [] = Inr []"
| "filtrar_categoria cat (n # ns) =
     (case categoria n of
        None \<Rightarrow> Inl AttributeError
      | Some c \<Rightarrow>
          (case filtrar_categoria cat ns of
             Inl e \<Rightarrow> Inl e
           | Inr rs \<Rightarrow> Inr (if lower c = lower cat then n # rs else rs)))"

text \<open>\<open>if categoria:\<close> holds for a string that is neither \<open>None\<close> nor empty.\<close>

definition obtener_notas :: "string option \<Rightarrow> bool option \<Rightarrow> Nota list \<Rightarrow> error + Nota list" where
  "obtener_notas cat imp db =
     (case (case cat of
              None \<Rightarrow> Inr db
            | Some c \<Rightarrow> if c \<noteq> [] then filtrar_categoria c db else Inr db) of
        Inl e \<Rightarrow> Inl e
      | Inr notas_filtradas \<Rightarrow>
          (case imp of
             None \<Rightarrow> Inr notas_filtradas
           | Some b \<Rightarrow> Inr (filter (\<lambda>n. importante n = Some b) notas_filtradas)))"

subsection \<open>\<open>obtener_nota\<close>\<close>

fun obtener_nota :: "string \<Rightarrow> Nota list \<Rightarrow> error + Nota" where
  "obtener_nota t [] = Inl NoEncontrada"
| "obtener_nota t (nota # resto) =
     (if lower (titulo nota) = lower t then Inr nota else obtener_nota t resto)"

subsection \<open>\<open>crear_nota\<close>\<close>

text \<open>The loop over \<open>notas_db\<close> that looks for a note with the same title.\<close>

fun existe_titulo :: "string \<Rightarrow> Nota list \<Rightarrow> bool" where
  "existe_titulo t [] = False"
| "existe_titulo t (nota_existente # resto) =
     (if lower (titulo nota_existente) = lower t then True else existe_titulo t resto)"

definition crear_nota :: "int \<Rightarrow> NotaCreate \<Rightarrow> Nota list \<Rightarrow> (error + Nota) \<times> Nota list" where
  "crear_nota ahora nota db =
     (if strip (titulo nota) = [] then (Inl TituloRequerido, db)
      else if strip (contenido nota) = [] then (Inl ContenidoRequerido, db)
      else if existe_titulo (titulo nota) db then (Inl TituloDuplicado, db)
      else
        let nueva_nota = \<lparr>titulo = titulo nota, contenido = contenido nota,
                          autor = autor nota, categoria = categoria nota,
                          importante = importante nota,
                          fecha_creacion = ahora, fecha_actualizacion = ahora\<rparr>
        in (Inr nueva_nota, db @ [nueva_nota]))"

subsection \<open>\<open>actualizar_nota\<close>\<close>

text \<open>
  The inner loop: a stored note whose title is the new title and is not the title of the
  request's path.
\<close>

fun existe_otro_titulo :: "string \<Rightarrow> string \<Rightarrow> Nota list \<Rightarrow> bool" where
  "existe_otro_titulo nuevo t [] = False"
| "existe_otro_titulo nuevo t (nota_existente # resto) =
     (if lower (titulo nota_existente) = lower nuevo \<and> lower (titulo nota_existente) \<noteq> lower t
      then True else existe_otro_titulo nuevo t resto)"

text \<open>
  The outer loop, \<open>for i, nota in enumerate(notas_db)\<close>: \<open>db\<close> is the whole list, \<open>i\<close> the
  index and the last argument the notes from index \<open>i\<close> on. No validation of the new title
  or content takes place.
\<close>

fun actualizar_bucle ::
  "int \<Rightarrow> string \<Rightarrow> NotaCreate \<Rightarrow> Nota list \<Rightarrow> nat \<Rightarrow> Nota list \<Rightarrow> (error + Nota) \<times> Nota list" where
  "actualizar_bucle ahora t nota_actualizada db i [] = (Inl NoEncontrada, db)"
| "actualizar_bucle ahora t nota_actualizada db i (nota # resto) =
     (if lower (titulo nota) = lower t then
        (if lower (titulo nota_actualizada) \<noteq> lower t
            \<and> existe_otro_titulo (titulo nota_actualizada) t db
         then (Inl TituloDuplicado, db)
         else
           let nota_actualizada_obj =
                 \<lparr>titulo = titulo nota_actualizada, contenido = contenido nota_actualizada,
                  autor = autor nota_actualizada, categoria = categoria nota_actualizada,
                  importante = importante nota_actualizada,
                  fecha_creacion = fecha_creacion nota, fecha_actualizacion = ahora\<rparr>
           in (Inr nota_actualizada_obj, db[i := nota_actualizada_obj]))
      else actualizar_bucle ahora t nota_actualizada db (Suc i) resto)"

definition actualizar_nota ::
  "int \<Rightarrow> string \<Rightarrow> NotaCreate \<Rightarrow> Nota list \<Rightarrow> (error + Nota) \<times> Nota list" where
  "actualizar_nota ahora t nota_actualizada db = actualizar_bucle ahora t nota_actualizada db 0 db"

subsection \<open>\<open>eliminar_nota\<close>\<close>

record Eliminada =
  mensaje :: string
  nota_eliminada :: Nota

text \<open>\<open>notas_db.pop(i)\<close> takes the element at index \<open>i\<close> out of the list and returns it.\<close>

definition pop :: "nat \<Rightarrow> 'a list \<Rightarrow> 'a \<times> 'a list" where
  "pop i xs = (xs ! i, take i xs @ drop (Suc i) xs)"

fun eliminar_bucle :: "string \<Rightarrow> Nota list \<Rightarrow> nat \<Rightarrow> Nota list \<Rightarrow> (error + Eliminada) \<times> Nota list" where
  "eliminar_bucle t db i [] = (Inl NoEncontrada, db)"
| "eliminar_bucle t db i (nota # resto) =
     (if lower (titulo nota) = lower t then
        (case pop i db of
           (eliminada, db') \<Rightarrow>
             (Inr \<lparr>mensaje = ''Nota eliminada exitosamente'', nota_eliminada = eliminada\<rparr>, db'))
      else eliminar_bucle t db (Suc i) resto)"

definition eliminar_nota :: "string \<Rightarrow> Nota list \<Rightarrow> (error + Eliminada) \<times> Nota list" where
  "eliminar_nota t db = eliminar_bucle t db 0 db"

subsection \<open>\<open>buscar_notas\<close>\<close>

fun buscar_notas :: "string \<Rightarrow> Nota list \<Rightarrow> Nota list" where
  "buscar_notas texto [] = []"
| "buscar_notas texto (nota # resto) =
     (if str_in (lower texto) (lower (titulo nota)) \<or> str_in (lower texto) (lower (contenido nota))
      then nota # buscar_notas texto resto else buscar_notas texto resto)"

subsection \<open>\<open>obtener_estadisticas\<close>\<close>

record Estadisticas =
  total_notas :: int
  notas_importantes :: int
  notas_normales :: int
  categorias :: "string option \<rightharpoonup> int"

text \<open>
  \<open>categorias[nota.categoria] = categorias.get(nota.categoria, 0) + 1\<close>, for each note in
  turn. The key is the category as it is stored.
\<close>

fun contar_categorias :: "(string option \<rightharpoonup> int) \<Rightarrow> Nota list \<Rightarrow> (string option \<rightharpoonup> int)" where
  "contar_categorias cs [] = cs"
| "contar_categorias cs (nota # resto) =
     contar_categorias
       (cs(categoria nota \<mapsto> (case cs (categoria nota) of None \<Rightarrow> 0 | Some c \<Rightarrow> c) + 1)) resto"

text \<open>\<open>if n.importante\<close> holds for \<open>True\<close>, and neither for \<open>False\<close> nor for \<open>None\<close>.\<close>

definition obtener_estadisticas :: "Nota list \<Rightarrow> Estadisticas" where
  "obtener_estadisticas db =
     (let total = int (length db);
          importantes = int (length (filter (\<lambda>n. importante n = Some True) db))
      in \<lparr>total_notas = total, notas_importantes = importantes,
          notas_normales = total - importantes,
          categorias = contar_categorias Map.empty db\<rparr>)"

section \<open>The states the service can be in\<close>

text \<open>
  \<open>notas_db\<close> starts empty, and only three handlers change it. A request that changes
  the state is one of the three calls, with the clock's reading at the time of the call
  where the handler reads the clock; the state after a sequence of requests is
  \<open>ejecutar\<close> of it.
\<close>

datatype peticion =
    Crear int NotaCreate
  | Actualizar int string NotaCreate
  | Eliminar string

fun atender :: "peticion \<Rightarrow> Nota list \<Rightarrow> Nota list" where
  "atender (Crear ahora nota) db = snd (crear_nota ahora nota db)"
| "atender (Actualizar ahora t nota) db = snd (actualizar_nota ahora t nota db)"
| "atender (Eliminar t) db = snd (eliminar_nota t db)"

definition ejecutar :: "peticion list \<Rightarrow> Nota list" where
  "ejecutar ps = foldl (\<lambda>db p. atender p db) [] ps"

section \<open>The uniqueness invariant\<close>

text \<open>
  The key under which titles are compared, and the invariant of the data model: no two
  stored notes have the same key.
\<close>

definition clave :: "Nota \<Rightarrow> string" where
  "clave n = lower (titulo n)"

definition titulos_unicos :: "Nota list \<Rightarrow> bool" where
  "titulos_unicos db = distinct (map clave db)"

section \<open>Example requests and notes\<close>

definition peticion_todo :: NotaCreate where
  "peticion_todo = \<lparr>titulo = ''Todo'', contenido = ''Buy milk'', autor = ''Alice'',
                    categoria = Some ''General'', importante = Some False\<rparr>"

definition peticion_TODO :: NotaCreate where
  "peticion_TODO = \<lparr>titulo = ''TODO'', contenido = ''Other'', autor = ''Bob'',
                    categoria = Some ''Work'', importante = Some True\<rparr>"

definition peticion_compras :: NotaCreate where
  "peticion_compras = \<lparr>titulo = ''Shopping'', contenido = ''Eggs'', autor = ''Carol'',
                       categoria = Some ''Personal'', importante = Some True\<rparr>"

definition peticion_COMPRAS :: NotaCreate where
  "peticion_COMPRAS = \<lparr>titulo = ''SHOPPING'', contenido = ''Bread'', autor = ''Dave'',
                       categoria = Some ''Personal'', importante = Some False\<rparr>"

definition peticion_sin_contenido :: NotaCreate where
  "peticion_sin_contenido = \<lparr>titulo = ''TODO'', contenido = [], autor = ''Bob'',
                             categoria = Some ''General'', importante = Some False\<rparr>"

definition peticion_en_blanco :: NotaCreate where
  "peticion_en_blanco = \<lparr>titulo = '' '', contenido = [], autor = ''Bob'',
                         categoria = Some ''General'', importante = Some False\<rparr>"

definition nota_todo :: Nota where
  "nota_todo = \<lparr>titulo = ''Todo'', contenido = ''Buy milk'', autor = ''Alice'',
                categoria = Some ''General'', importante = Some False,
                fecha_creacion = 10, fecha_actualizacion = 10\<rparr>"

definition nota_compras :: Nota where
  "nota_compras = \<lparr>titulo = ''Shopping'', contenido = ''Eggs'', autor = ''Carol'',
                   categoria = Some ''Personal'', importante = Some True,
                   fecha_creacion = 11, fecha_actualizacion = 11\<rparr>"

text \<open>The requests that create the two notes, at the clock readings 10 and 11.\<close>

definition dos_notas :: "peticion list" where
  "dos_notas = [Crear 10 peticion_todo, Crear 11 peticion_compras]"

section \<open>The loops, characterised\<close>

lemma existe_titulo_iff: "existe_titulo t db \<longleftrightarrow> (\<exists>n\<in>set db. lower (titulo n) = lower t)"
  by (induction db) auto

lemma existe_otro_titulo_iff:
  "existe_otro_titulo nuevo t db \<longleftrightarrow>
     (\<exists>n\<in>set db. lower (titulo n) = lower nuevo \<and> lower (titulo n) \<noteq> lower t)"
  by (induction db) auto

lemma obtener_nota_ninguna:
  "obtener_nota t db = Inl NoEncontrada \<longleftrightarrow> (\<forall>n\<in>set db. lower (titulo n) \<noteq> lower t)"
  by (induction db) auto

lemma obtener_nota_primera:
  "\<forall>x\<in>set xs. lower (titulo x) \<noteq> lower t \<Longrightarrow> lower (titulo n) = lower t \<Longrightarrow>
   obtener_nota t (xs @ n # ys) = Inr n"
  by (induction xs) auto

lemma actualizar_bucle_ninguna:
  "\<forall>n\<in>set resto. lower (titulo n) \<noteq> lower t \<Longrightarrow>
   actualizar_bucle ahora t nu db i resto = (Inl NoEncontrada, db)"
  by (induction resto arbitrary: i) auto

lemma actualizar_bucle_primera:
  "\<forall>x\<in>set xs. lower (titulo x) \<noteq> lower t \<Longrightarrow> lower (titulo n) = lower t \<Longrightarrow>
   actualizar_bucle ahora t nu db i (xs @ n # ys) =
     (if lower (titulo nu) \<noteq> lower t \<and> existe_otro_titulo (titulo nu) t db
      then (Inl TituloDuplicado, db)
      else (Inr \<lparr>titulo = titulo nu, contenido = contenido nu, autor = autor nu,
                 categoria = categoria nu, importante = importante nu,
                 fecha_creacion = fecha_creacion n, fecha_actualizacion = ahora\<rparr>,
            db[i + length xs := \<lparr>titulo = titulo nu, contenido = contenido nu, autor = autor nu,
                 categoria = categoria nu, importante = importante nu,
                 fecha_creacion = fecha_creacion n, fecha_actualizacion = ahora\<rparr>]))"
  by (induction xs arbitrary: i) (auto simp: Let_def)

lemma eliminar_bucle_ninguna:
  "\<forall>n\<in>set resto. lower (titulo n) \<noteq> lower t \<Longrightarrow>
   eliminar_bucle t db i resto = (Inl NoEncontrada, db)"
  by (induction resto arbitrary: i) auto

lemma eliminar_bucle_primera:
  "\<forall>x\<in>set xs. lower (titulo x) \<noteq> lower t \<Longrightarrow> lower (titulo n) = lower t \<Longrightarrow>
   eliminar_bucle t db i (xs @ n # ys) =
     (Inr \<lparr>mensaje = ''Nota eliminada exitosamente'', nota_eliminada = db ! (i + length xs)\<rparr>,
      take (i + length xs) db @ drop (Suc (i + length xs)) db)"
  by (induction xs arbitrary: i) (auto simp: pop_def)

lemma primera_coincidencia:
  assumes "\<exists>n\<in>set db. lower (titulo n) = lower t"
  obtains xs n ys where "db = xs @ n # ys" "lower (titulo n) = lower t"
    "\<forall>x\<in>set xs. lower (titulo x) \<noteq> lower t"
  using split_list_first_prop[OF assms] by blast

lemma actualizar_nota_ninguna:
  "\<forall>n\<in>set db. lower (titulo n) \<noteq> lower t \<Longrightarrow>
   actualizar_nota ahora t nu db = (Inl NoEncontrada, db)"
  by (simp add: actualizar_nota_def actualizar_bucle_ninguna)

lemma actualizar_nota_primera:
  "\<forall>x\<in>set xs. lower (titulo x) \<noteq> lower t \<Longrightarrow> lower (titulo n) = lower t \<Longrightarrow>
   actualizar_nota ahora t nu (xs @ n # ys) =
     (if lower (titulo nu) \<noteq> lower t \<and> existe_otro_titulo (titulo nu) t (xs @ n # ys)
      then (Inl TituloDuplicado, xs @ n # ys)
      else (Inr \<lparr>titulo = titulo nu, contenido = contenido nu, autor = autor nu,
                 categoria = categoria nu, importante = importante nu,
                 fecha_creacion = fecha_creacion n, fecha_actualizacion = ahora\<rparr>,
            xs @ \<lparr>titulo = titulo nu, contenido = contenido nu, autor = autor nu,
                 categoria = categoria nu, importante = importante nu,
                 fecha_creacion = fecha_creacion n, fecha_actualizacion = ahora\<rparr> # ys))"
  unfolding actualizar_nota_def
  by (subst actualizar_bucle_primera) (auto simp: list_update_append)

lemma eliminar_nota_ninguna:
  "\<forall>n\<in>set db. lower (titulo n) \<noteq> lower t \<Longrightarrow> eliminar_nota t db = (Inl NoEncontrada, db)"
  by (simp add: eliminar_nota_def eliminar_bucle_ninguna)

lemma eliminar_nota_primera:
  "\<forall>x\<in>set xs. lower (titulo x) \<noteq> lower t \<Longrightarrow> lower (titulo n) = lower t \<Longrightarrow>
   eliminar_nota t (xs @ n # ys) =
     (Inr \<lparr>mensaje = ''Nota eliminada exitosamente'', nota_eliminada = n\<rparr>, xs @ ys)"
  unfolding eliminar_nota_def
  by (subst eliminar_bucle_primera) auto

lemma unicos_crear: "titulos_unicos db \<Longrightarrow> titulos_unicos (snd (crear_nota ahora nu db))"
  by (auto simp: crear_nota_def titulos_unicos_def clave_def existe_titulo_iff Let_def)

lemma unicos_eliminar: "titulos_unicos db \<Longrightarrow> titulos_unicos (snd (eliminar_nota t db))"
proof (cases "\<exists>n\<in>set db. lower (titulo n) = lower t")
  case False
  assume "titulos_unicos db"
  with False show ?thesis by (simp add: eliminar_nota_ninguna)
next
  case True
  assume u: "titulos_unicos db"
  from True obtain xs n ys where "db = xs @ n # ys" "lower (titulo n) = lower t"
    "\<forall>x\<in>set xs. lower (titulo x) \<noteq> lower t" by (rule primera_coincidencia)
  with u show ?thesis by (simp add: eliminar_nota_primera titulos_unicos_def)
qed

lemma unicos_actualizar:
  assumes u: "titulos_unicos db"
  shows "titulos_unicos (snd (actualizar_nota ahora t nu db))"
proof (cases "\<exists>n\<in>set db. lower (titulo n) = lower t")
  case False
  with u show ?thesis by (simp add: actualizar_nota_ninguna)
next
  case True
  then obtain xs n ys where db: "db = xs @ n # ys" and n: "lower (titulo n) = lower t"
    and xs: "\<forall>x\<in>set xs. lower (titulo x) \<noteq> lower t" by (rule primera_coincidencia)
  show ?thesis
  proof (cases "lower (titulo nu) = lower t")
    case True
    with u db n xs show ?thesis
      by (simp add: actualizar_nota_primera titulos_unicos_def clave_def)
  next
    case False
    with u db n xs show ?thesis
      by (auto simp: actualizar_nota_primera titulos_unicos_def clave_def existe_otro_titulo_iff)
  qed
qed

lemma unicos_atender: "titulos_unicos db \<Longrightarrow> titulos_unicos (atender p db)"
  by (cases p) (simp_all add: unicos_crear unicos_actualizar unicos_eliminar)

lemma unicos_ejecutar: "titulos_unicos (ejecutar ps)"
proof (induction ps rule: rev_induct)
  case Nil
  show ?case by (simp add: ejecutar_def titulos_unicos_def)
next
  case (snoc p ps)
  then show ?case by (simp add: ejecutar_def unicos_atender)
qed

lemma unicos_a_lo_sumo_una:
  "titulos_unicos db \<Longrightarrow> length (filter (\<lambda>n. lower (titulo n) = lower t) db) \<le> 1"
  unfolding titulos_unicos_def clave_def
proof (induction db)
  case Nil
  show ?case by simp
next
  case (Cons a db)
  show ?case
  proof (cases "lower (titulo a) = lower t")
    case True
    with Cons.prems have "\<forall>n\<in>set db. lower (titulo n) \<noteq> lower t"
      by (auto simp: image_iff)
    then have "filter (\<lambda>n. lower (titulo n) = lower t) db = []"
      by (simp add: filter_empty_conv)
    with True show ?thesis by simp
  next
    case False
    with Cons show ?thesis by simp
  qed
qed

lemma startswith_iff: "startswith s p \<longleftrightarrow> (\<exists>suf. s = p @ suf)"
  by (induction s p rule: startswith.induct) auto

lemma str_in_iff: "str_in sub s \<longleftrightarrow> (\<exists>pre suf. s = pre @ sub @ suf)"
proof (induction s)
  case Nil
  show ?case by auto
next
  case (Cons c cs)
  show ?case
  proof
    assume "str_in sub (c # cs)"
    then consider "startswith (c # cs) sub" | "str_in sub cs" by auto
    then show "\<exists>pre suf. c # cs = pre @ sub @ suf"
    proof cases
      case 1
      then obtain suf where "c # cs = sub @ suf" by (auto simp: startswith_iff)
      then have "c # cs = [] @ sub @ suf" by simp
      then show ?thesis by blast
    next
      case 2
      with Cons obtain pre suf where "cs = pre @ sub @ suf" by blast
      then have "c # cs = (c # pre) @ sub @ suf" by simp
      then show ?thesis by blast
    qed
  next
    assume "\<exists>pre suf. c # cs = pre @ sub @ suf"
    then obtain pre suf where e: "c # cs = pre @ sub @ suf" by blast
    show "str_in sub (c # cs)"
    proof (cases pre)
      case Nil
      with e have "startswith (c # cs) sub" by (auto simp: startswith_iff)
      then show ?thesis by simp
    next
      case (Cons d ds)
      with e have "cs = ds @ sub @ suf" by simp
      then have "str_in sub cs" using Cons.IH by blast
      then show ?thesis by simp
    qed
  qed
qed

lemma str_in_vacio: "str_in [] s"
  by (induction s) auto

lemma buscar_notas_filter:
  "buscar_notas texto db =
     filter (\<lambda>n. str_in (lower texto) (lower (titulo n)) \<or> str_in (lower texto) (lower (contenido n))) db"
  by (induction db) auto

lemma contar_categorias_cuenta:
  "contar_categorias cs db k =
     (if filter (\<lambda>n. categoria n = k) db = [] then cs k
      else Some ((case cs k of None \<Rightarrow> 0 | Some c \<Rightarrow> c)
                 + int (length (filter (\<lambda>n. categoria n = k) db))))"
proof (induction db arbitrary: cs)
  case Nil
  show ?case by simp
next
  case (Cons a db)
  show ?case
    by (cases "categoria a = k") (auto simp: Cons.IH split: option.splits)
qed

lemma filter_vacio_categoria:
  "filter (\<lambda>n. categoria n = k) db = [] \<longleftrightarrow> k \<notin> categoria ` set db"
  by (auto simp: filter_empty_conv)

lemma unicos_indice:
  "titulos_unicos db \<Longrightarrow> i < length db \<Longrightarrow> j < length db \<Longrightarrow>
   lower (titulo (db ! i)) = lower (titulo (db ! j)) \<Longrightarrow> i = j"
  unfolding titulos_unicos_def clave_def
  by (metis (mono_tags, lifting) length_map nth_eq_iff_index_eq nth_map)

lemma primera_indice:
  assumes "i < length db" "lower (titulo (db ! i)) = lower t"
  obtains k where "k \<le> i" "lower (titulo (db ! k)) = lower t"
    "\<forall>j<k. lower (titulo (db ! j)) \<noteq> lower t"
    "db = take k db @ db ! k # drop (Suc k) db"
proof -
  from assms have "\<exists>n\<in>set db. lower (titulo n) = lower t" using nth_mem by blast
  then obtain xs n ys where db: "db = xs @ n # ys" and n: "lower (titulo n) = lower t"
    and xs: "\<forall>x\<in>set xs. lower (titulo x) \<noteq> lower t" by (rule primera_coincidencia)
  let ?k = "length xs"
  have k: "db ! ?k = n" using db by simp
  have "\<not> i < ?k"
  proof
    assume "i < ?k"
    then have "db ! i \<in> set xs" using db by (simp add: nth_append)
    with xs assms(2) show False by blast
  qed
  then have 1: "?k \<le> i" by simp
  have 3: "\<forall>j<?k. lower (titulo (db ! j)) \<noteq> lower t"
    using xs db by (simp add: nth_append)
  have 4: "db = take ?k db @ db ! ?k # drop (Suc ?k) db"
    using db by simp
  from 1 n 3 4 k show thesis using that[of ?k] by simp
qed

text \<open>
  In a state with the invariant, the note at index \<open>i\<close> that matches the title is the first
  match, so the loops stop at it.
\<close>

lemma unicos_primera:
  assumes u: "titulos_unicos db" and i: "i < length db"
    and ti: "lower (titulo (db ! i)) = lower t"
  shows "db = take i db @ db ! i # drop (Suc i) db"
    and "\<forall>x\<in>set (take i db). lower (titulo x) \<noteq> lower t"
    and "\<forall>y\<in>set (drop (Suc i) db). lower (titulo y) \<noteq> lower t"
proof -
  from i ti obtain k where k: "k \<le> i" "lower (titulo (db ! k)) = lower t"
    "\<forall>j<k. lower (titulo (db ! j)) \<noteq> lower t"
    "db = take k db @ db ! k # drop (Suc k) db" by (rule primera_indice)
  have ki: "k = i" using unicos_indice[OF u _ i, of k] k(1,2) i ti by simp
  let ?xs = "take i db" and ?ys = "drop (Suc i) db"
  show split: "db = ?xs @ db ! i # ?ys" using k(4) ki by simp
  show "\<forall>x\<in>set ?xs. lower (titulo x) \<noteq> lower t"
    using k(3) ki i by (auto simp: in_set_conv_nth)
  have "distinct (map clave (?xs @ db ! i # ?ys))"
    using u split unfolding titulos_unicos_def by simp
  then have "clave (db ! i) \<notin> clave ` set ?ys" by simp
  then have "\<forall>y\<in>set ?ys. clave y \<noteq> clave (db ! i)" by (metis imageI)
  then show "\<forall>y\<in>set ?ys. lower (titulo y) \<noteq> lower t" using ti by (simp add: clave_def)
qed

section \<open>The claims\<close>

subsection \<open>C1: no blank title or content\<close>

text \<open>
  C1. The claim is that in every state the service can reach, every stored note has a
  title and a content that are not blank. \<open>crear_nota\<close> checks both with \<open>strip\<close>;
  \<open>actualizar_nota\<close> stores the new title and content without that check. After the note
  \<open>Todo\<close> is created, the update of \<open>todo\<close> with a title of one space and an empty content
  succeeds, and the state holds a note whose title and content are blank; the same body
  sent to \<open>crear_nota\<close> is refused.
\<close>

theorem actualizar_sin_validar:
  "ejecutar [Crear 10 peticion_todo] = [nota_todo]
 \<and> actualizar_nota 20 ''todo'' peticion_en_blanco [nota_todo] =
     (Inr \<lparr>titulo = '' '', contenido = [], autor = ''Bob'', categoria = Some ''General'',
           importante = Some False, fecha_creacion = 10, fecha_actualizacion = 20\<rparr>,
      [\<lparr>titulo = '' '', contenido = [], autor = ''Bob'', categoria = Some ''General'',
           importante = Some False, fecha_creacion = 10, fecha_actualizacion = 20\<rparr>])
 \<and> ejecutar [Crear 10 peticion_todo, Actualizar 20 ''todo'' peticion_en_blanco] =
      [\<lparr>titulo = '' '', contenido = [], autor = ''Bob'', categoria = Some ''General'',
           importante = Some False, fecha_creacion = 10, fecha_actualizacion = 20\<rparr>]
 \<and> strip '' '' = [] \<and> strip [] = []
 \<and> fst (crear_nota 20 peticion_en_blanco []) = Inl TituloRequerido"
  by code_simp

subsection \<open>C3: a failed request changes nothing\<close>

text \<open>
  C3. Whenever \<open>crear_nota\<close>, \<open>actualizar_nota\<close> or \<open>eliminar_nota\<close> raises, for any state and
  any input, \<open>notas_db\<close> is the same list after the call as before it. The errors that each
  of them can raise are the four \<open>HTTPException\<close>s: title or content required and duplicate
  title for create, not found and duplicate title for update, not found for delete.
\<close>

theorem fallo_sin_efecto:
  "(fst (crear_nota ahora nota db) = Inl e \<longrightarrow>
      snd (crear_nota ahora nota db) = db
      \<and> e \<in> {TituloRequerido, ContenidoRequerido, TituloDuplicado})
 \<and> (fst (actualizar_nota ahora t nota db) = Inl e \<longrightarrow>
      snd (actualizar_nota ahora t nota db) = db \<and> e \<in> {NoEncontrada, TituloDuplicado})
 \<and> (fst (eliminar_nota t db) = Inl e \<longrightarrow>
      snd (eliminar_nota t db) = db \<and> e = NoEncontrada)"
proof (intro conjI impI)
  assume "fst (crear_nota ahora nota db) = Inl e"
  then show "snd (crear_nota ahora nota db) = db"
    and "e \<in> {TituloRequerido, ContenidoRequerido, TituloDuplicado}"
    by (auto simp: crear_nota_def Let_def split: if_splits)
next
  assume f: "fst (actualizar_nota ahora t nota db) = Inl e"
  have "snd (actualizar_nota ahora t nota db) = db \<and> e \<in> {NoEncontrada, TituloDuplicado}"
  proof (cases "\<exists>n\<in>set db. lower (titulo n) = lower t")
    case False
    with f show ?thesis by (simp add: actualizar_nota_ninguna)
  next
    case True
    then obtain xs n ys where "db = xs @ n # ys" "lower (titulo n) = lower t"
      "\<forall>x\<in>set xs. lower (titulo x) \<noteq> lower t" by (rule primera_coincidencia)
    with f show ?thesis by (auto simp: actualizar_nota_primera split: if_splits)
  qed
  then show "snd (actualizar_nota ahora t nota db) = db"
    and "e \<in> {NoEncontrada, TituloDuplicado}" by simp_all
next
  assume f: "fst (eliminar_nota t db) = Inl e"
  have "snd (eliminar_nota t db) = db \<and> e = NoEncontrada"
  proof (cases "\<exists>n\<in>set db. lower (titulo n) = lower t")
    case False
    with f show ?thesis by (simp add: eliminar_nota_ninguna)
  next
    case True
    then obtain xs n ys where "db = xs @ n # ys" "lower (titulo n) = lower t"
      "\<forall>x\<in>set xs. lower (titulo x) \<noteq> lower t" by (rule primera_coincidencia)
    with f show ?thesis by (simp add: eliminar_nota_primera)
  qed
  then show "snd (eliminar_nota t db) = db" and "e = NoEncontrada" by simp_all
qed

theorem fallo_sin_efecto_witness:
  "fst (crear_nota 20 peticion_TODO [nota_todo]) = Inl TituloDuplicado
 \<and> snd (crear_nota 20 peticion_TODO [nota_todo]) = [nota_todo]
 \<and> fst (actualizar_nota 20 ''nada'' peticion_TODO [nota_todo]) = Inl NoEncontrada
 \<and> snd (actualizar_nota 20 ''nada'' peticion_TODO [nota_todo]) = [nota_todo]
 \<and> fst (eliminar_nota ''nada'' [nota_todo]) = Inl NoEncontrada
 \<and> snd (eliminar_nota ''nada'' [nota_todo]) = [nota_todo]"
proof -
  have c: "fst (crear_nota 20 peticion_TODO [nota_todo]) = Inl TituloDuplicado" by code_simp
  have a: "fst (actualizar_nota 20 ''nada'' peticion_TODO [nota_todo]) = Inl NoEncontrada"
    by code_simp
  have e: "fst (eliminar_nota ''nada'' [nota_todo]) = Inl NoEncontrada" by code_simp
  note t1 = fallo_sin_efecto[of 20 peticion_TODO "[nota_todo]" TituloDuplicado "''nada''"]
  note t2 = fallo_sin_efecto[of 20 peticion_TODO "[nota_todo]" NoEncontrada "''nada''"]
  from t1 c have "snd (crear_nota 20 peticion_TODO [nota_todo]) = [nota_todo]" by blast
  moreover from t2 a have "snd (actualizar_nota 20 ''nada'' peticion_TODO [nota_todo]) = [nota_todo]"
    by blast
  moreover from t2 e have "snd (eliminar_nota ''nada'' [nota_todo]) = [nota_todo]" by blast
  ultimately show ?thesis using c a e by blast
qed

subsection \<open>C8: search\<close>

text \<open>
  C8. \<open>buscar_notas\<close> with the empty text returns the whole collection, and with any text it
  returns, in the order of the collection, exactly the notes where the lower-cased text
  occurs as a contiguous run in the lower-cased title or in the lower-cased content.
\<close>

theorem buscar_notas_subcadena:
  "buscar_notas [] db = db
 \<and> buscar_notas texto db =
     filter (\<lambda>n. (\<exists>pre suf. lower (titulo n) = pre @ lower texto @ suf)
               \<or> (\<exists>pre suf. lower (contenido n) = pre @ lower texto @ suf)) db"
  by (simp add: buscar_notas_filter str_in_iff[symmetric] lower_def str_in_vacio)

subsection \<open>C9: statistics\<close>

text \<open>
  C9. \<open>obtener_estadisticas\<close> returns the number of notes, the number of notes whose
  \<open>importante\<close> is true, their difference as the normal count, and a dictionary that maps
  each category that occurs to the number of notes with exactly that category and has no
  other key. The key is the stored category, compared as it is: two categories that differ
  in letter case are two keys.
\<close>

theorem obtener_estadisticas_cuenta:
  "total_notas (obtener_estadisticas db) = int (length db)
 \<and> notas_importantes (obtener_estadisticas db) =
     int (length (filter (\<lambda>n. importante n = Some True) db))
 \<and> notas_normales (obtener_estadisticas db) =
     total_notas (obtener_estadisticas db) - notas_importantes (obtener_estadisticas db)
 \<and> categorias (obtener_estadisticas db) k =
     (if k \<in> categoria ` set db
      then Some (int (length (filter (\<lambda>n. categoria n = k) db))) else None)"
  by (simp add: obtener_estadisticas_def Let_def contar_categorias_cuenta filter_vacio_categoria)

subsection \<open>C10: the empty category filter\<close>

text \<open>
  C10. \<open>obtener_notas\<close> called with the empty string as category filter returns what it
  returns without a category filter: the whole collection, filtered by importance only
  when that filter is given.
\<close>

theorem obtener_notas_categoria_vacia:
  "obtener_notas (Some []) imp db = obtener_notas None imp db
 \<and> obtener_notas (Some []) imp db =
     Inr (case imp of None \<Rightarrow> db | Some b \<Rightarrow> filter (\<lambda>n. importante n = Some b) db)"
  by (simp add: obtener_notas_def split: option.splits)

subsection \<open>C6: create, then get\<close>

text \<open>
  C6. When title and content are not blank after \<open>strip\<close> and no stored note has the same
  lower-cased title, \<open>crear_nota\<close> succeeds, appends the new note at the end of the
  collection, and \<open>obtener_nota\<close> with the same title then returns that note: its title,
  content, author, category and importance are the request's, and its two time stamps are
  equal.
\<close>

theorem crear_y_obtener:
  assumes "strip (titulo nota) \<noteq> []" and "strip (contenido nota) \<noteq> []"
    and "\<forall>e\<in>set db. lower (titulo e) \<noteq> lower (titulo nota)"
  shows "\<exists>nueva.
      crear_nota ahora nota db = (Inr nueva, db @ [nueva])
    \<and> obtener_nota (titulo nota) (snd (crear_nota ahora nota db)) = Inr nueva
    \<and> titulo nueva = titulo nota \<and> contenido nueva = contenido nota
    \<and> autor nueva = autor nota \<and> categoria nueva = categoria nota
    \<and> importante nueva = importante nota
    \<and> fecha_creacion nueva = fecha_actualizacion nueva"
  using assms
  by (simp add: crear_nota_def Let_def existe_titulo_iff obtener_nota_primera)

theorem crear_y_obtener_witness:
  "strip (titulo peticion_compras) \<noteq> [] \<and> strip (contenido peticion_compras) \<noteq> []
 \<and> lower (titulo nota_todo) \<noteq> lower (titulo peticion_compras)
 \<and> (\<exists>nueva. crear_nota 11 peticion_compras [nota_todo] = (Inr nueva, [nota_todo] @ [nueva])
      \<and> obtener_nota (titulo peticion_compras) (snd (crear_nota 11 peticion_compras [nota_todo]))
          = Inr nueva
      \<and> fecha_creacion nueva = fecha_actualizacion nueva)"
proof -
  have h1: "strip (titulo peticion_compras) \<noteq> []" by code_simp
  have h2: "strip (contenido peticion_compras) \<noteq> []" by code_simp
  have h: "lower (titulo nota_todo) \<noteq> lower (titulo peticion_compras)"
    by code_simp
  then have h3: "\<forall>e\<in>set [nota_todo]. lower (titulo e) \<noteq> lower (titulo peticion_compras)"
    by simp
  from crear_y_obtener[OF h1 h2 h3, of 11] h1 h2 h show ?thesis by blast
qed

subsection \<open>C2: one note per title, letter case ignored\<close>

text \<open>
  C2 as stated fails where the request is refused before the titles are compared: with
  the note \<open>Todo\<close> stored, a create request with the title \<open>TODO\<close> and an empty content
  fails with the content-required error, not with the duplicate-title error.
\<close>

theorem crear_duplicado_sin_contenido:
  "ejecutar [Crear 10 peticion_todo] = [nota_todo]
 \<and> lower (titulo peticion_sin_contenido) = lower (titulo nota_todo)
 \<and> crear_nota 20 peticion_sin_contenido [nota_todo] = (Inl ContenidoRequerido, [nota_todo])
 \<and> fst (crear_nota 20 peticion_sin_contenido [nota_todo]) \<noteq> Inl TituloDuplicado"
  by code_simp

text \<open>
  C2, as amended. In every state that the service can reach, at most one note has a given
  title when letter case is ignored, and every further request keeps it so. A create
  request whose title equals the title of a stored note, letter case ignored, fails and
  changes nothing: with the duplicate-title error when its title and content are not
  blank, and with the title-required or content-required error when one of them is blank,
  since those two checks come first.
\<close>

theorem titulo_unico_sin_distinguir_mayusculas:
  "length (filter (\<lambda>n. lower (titulo n) = lower t) (ejecutar ps)) \<le> 1
 \<and> length (filter (\<lambda>n. lower (titulo n) = lower t) (atender p (ejecutar ps))) \<le> 1
 \<and> ((\<exists>e\<in>set db. lower (titulo e) = lower (titulo nota)) \<longrightarrow>
      crear_nota ahora nota db =
        (Inl (if strip (titulo nota) = [] then TituloRequerido
              else if strip (contenido nota) = [] then ContenidoRequerido
              else TituloDuplicado), db))"
proof (intro conjI impI)
  show "length (filter (\<lambda>n. lower (titulo n) = lower t) (ejecutar ps)) \<le> 1"
    by (rule unicos_a_lo_sumo_una) (rule unicos_ejecutar)
  show "length (filter (\<lambda>n. lower (titulo n) = lower t) (atender p (ejecutar ps))) \<le> 1"
    by (rule unicos_a_lo_sumo_una) (rule unicos_atender, rule unicos_ejecutar)
next
  assume "\<exists>e\<in>set db. lower (titulo e) = lower (titulo nota)"
  then show "crear_nota ahora nota db =
        (Inl (if strip (titulo nota) = [] then TituloRequerido
              else if strip (contenido nota) = [] then ContenidoRequerido
              else TituloDuplicado), db)"
    by (simp add: crear_nota_def existe_titulo_iff)
qed

theorem titulo_unico_sin_distinguir_mayusculas_witness:
  "(\<exists>e\<in>set (ejecutar [Crear 10 peticion_todo]). lower (titulo e) = lower (titulo peticion_TODO))
 \<and> crear_nota 20 peticion_TODO (ejecutar [Crear 10 peticion_todo]) =
     (Inl TituloDuplicado, ejecutar [Crear 10 peticion_todo])
 \<and> length (filter (\<lambda>n. lower (titulo n) = lower ''TODO'') (ejecutar [Crear 10 peticion_todo])) \<le> 1"
proof -
  have h: "\<exists>e\<in>set (ejecutar [Crear 10 peticion_todo]). lower (titulo e) = lower (titulo peticion_TODO)"
    by code_simp
  have s: "strip (titulo peticion_TODO) \<noteq> []" "strip (contenido peticion_TODO) \<noteq> []"
    by code_simp+
  from titulo_unico_sin_distinguir_mayusculas
    [of "''TODO''" "[Crear 10 peticion_todo]" "Eliminar []" "ejecutar [Crear 10 peticion_todo]"
        peticion_TODO 20]
  show ?thesis using h s by simp
qed

subsection \<open>C4: renaming on update\<close>

text \<open>
  C4. In a state that the service can reach, let the note at index \<open>i\<close> be the one that the
  title \<open>t\<close> of the request matches. The update fails with the duplicate-title error, and
  changes nothing, when the new title is the title, letter case ignored, of a note at
  another index; it succeeds, and replaces the note at \<open>i\<close>, when the new title is the
  note's own title, in the same or in another letter case.
\<close>

theorem actualizar_titulo_en_conflicto:
  assumes db: "db = ejecutar ps" and i: "i < length db"
    and ti: "lower (titulo (db ! i)) = lower t"
  shows "(j < length db \<and> j \<noteq> i \<and> lower (titulo (db ! j)) = lower (titulo nota) \<longrightarrow>
            actualizar_nota ahora t nota db = (Inl TituloDuplicado, db))
       \<and> (lower (titulo nota) = lower (titulo (db ! i)) \<longrightarrow>
            (\<exists>obj. actualizar_nota ahora t nota db = (Inr obj, db[i := obj])
                 \<and> titulo obj = titulo nota))"
proof -
  have u: "titulos_unicos db" using db by (simp add: unicos_ejecutar)
  let ?xs = "take i db" and ?ys = "drop (Suc i) db"
  note split = unicos_primera(1)[OF u i ti] and xs = unicos_primera(2)[OF u i ti]
  note ev = actualizar_nota_primera[OF xs ti, of ahora nota ?ys, folded split]
  show ?thesis
  proof (intro conjI impI)
    assume a: "j < length db \<and> j \<noteq> i \<and> lower (titulo (db ! j)) = lower (titulo nota)"
    then have "lower (titulo (db ! j)) \<noteq> lower (titulo (db ! i))"
      using unicos_indice[OF u _ i, of j] by auto
    with a ti have "lower (titulo nota) \<noteq> lower t"
      and "existe_otro_titulo (titulo nota) t db"
      by (auto simp: existe_otro_titulo_iff intro!: bexI[of _ "db ! j"])
    then show "actualizar_nota ahora t nota db = (Inl TituloDuplicado, db)"
      using ev by simp
  next
    assume "lower (titulo nota) = lower (titulo (db ! i))"
    with ti have "lower (titulo nota) = lower t" by simp
    then have "actualizar_nota ahora t nota db =
      (Inr \<lparr>titulo = titulo nota, contenido = contenido nota, autor = autor nota,
            categoria = categoria nota, importante = importante nota,
            fecha_creacion = fecha_creacion (db ! i), fecha_actualizacion = ahora\<rparr>,
       ?xs @ \<lparr>titulo = titulo nota, contenido = contenido nota, autor = autor nota,
            categoria = categoria nota, importante = importante nota,
            fecha_creacion = fecha_creacion (db ! i), fecha_actualizacion = ahora\<rparr> # ?ys)"
      using ev by simp
    moreover have "\<And>obj. ?xs @ obj # ?ys = db[i := obj]"
      using i by (simp add: upd_conv_take_nth_drop)
    ultimately show "\<exists>obj. actualizar_nota ahora t nota db = (Inr obj, db[i := obj])
                 \<and> titulo obj = titulo nota" by simp
  qed
qed

theorem actualizar_titulo_en_conflicto_witness:
  "(0::nat) < length (ejecutar dos_notas)
 \<and> lower (titulo (ejecutar dos_notas ! 0)) = lower ''TODO''
 \<and> (1::nat) < length (ejecutar dos_notas) \<and> (1::nat) \<noteq> 0
 \<and> lower (titulo (ejecutar dos_notas ! 1)) = lower (titulo peticion_COMPRAS)
 \<and> actualizar_nota 20 ''TODO'' peticion_COMPRAS (ejecutar dos_notas) =
      (Inl TituloDuplicado, ejecutar dos_notas)
 \<and> lower (titulo peticion_TODO) = lower (titulo (ejecutar dos_notas ! 0))
 \<and> (\<exists>obj. actualizar_nota 20 ''TODO'' peticion_TODO (ejecutar dos_notas) =
            (Inr obj, (ejecutar dos_notas)[0 := obj]) \<and> titulo obj = titulo peticion_TODO)"
proof -
  have i: "(0::nat) < length (ejecutar dos_notas)" by code_simp
  have ti: "lower (titulo (ejecutar dos_notas ! 0)) = lower ''TODO''" by code_simp
  have j: "(1::nat) < length (ejecutar dos_notas) \<and> (1::nat) \<noteq> 0
     \<and> lower (titulo (ejecutar dos_notas ! 1)) = lower (titulo peticion_COMPRAS)" by code_simp
  have k: "lower (titulo peticion_TODO) = lower (titulo (ejecutar dos_notas ! 0))" by code_simp
  note t1 = actualizar_titulo_en_conflicto[OF refl i ti, of 1 peticion_COMPRAS 20]
  note t2 = actualizar_titulo_en_conflicto[OF refl i ti, of 1 peticion_TODO 20]
  from t1 j have c: "actualizar_nota 20 ''TODO'' peticion_COMPRAS (ejecutar dos_notas) =
      (Inl TituloDuplicado, ejecutar dos_notas)" by blast
  from t2 k have s: "\<exists>obj. actualizar_nota 20 ''TODO'' peticion_TODO (ejecutar dos_notas) =
            (Inr obj, (ejecutar dos_notas)[0 := obj]) \<and> titulo obj = titulo peticion_TODO"
    by blast
  from i ti j c k s show ?thesis by blast
qed

subsection \<open>C5: update in place\<close>

text \<open>
  C5 as stated fails in its bound on the update time: \<open>datetime.now()\<close> is the local wall
  clock, and nothing compares its reading with the stored time. The note \<open>Todo\<close> is created
  at the reading 10; an update at the reading 5 succeeds and stores 5 as update time.
\<close>

theorem reloj_atrasado:
  "ejecutar [Crear 10 peticion_todo] = [nota_todo]
 \<and> actualizar_nota 5 ''todo'' peticion_TODO [nota_todo] =
     (Inr \<lparr>titulo = ''TODO'', contenido = ''Other'', autor = ''Bob'', categoria = Some ''Work'',
           importante = Some True, fecha_creacion = 10, fecha_actualizacion = 5\<rparr>,
      [\<lparr>titulo = ''TODO'', contenido = ''Other'', autor = ''Bob'', categoria = Some ''Work'',
           importante = Some True, fecha_creacion = 10, fecha_actualizacion = 5\<rparr>])
 \<and> fecha_actualizacion nota_todo = 10
 \<and> \<not> fecha_actualizacion nota_todo \<le> 5"
  by code_simp

text \<open>
  C5, as amended. A successful \<open>actualizar_nota\<close> replaces the first note that the title
  matches, at its index \<open>i\<close>: the new note has the request's title, content, author,
  category and importance, the creation time of the note it replaces, and the clock's
  reading as update time; the collection keeps its length and every note at another index.
  The new update time is not before the previous one when the clock's reading is not
  before it.
\<close>

theorem actualizar_en_su_sitio:
  assumes ok: "fst (actualizar_nota ahora t nota db) = Inr obj"
  shows "\<exists>i<length db.
      lower (titulo (db ! i)) = lower t
    \<and> (\<forall>j<i. lower (titulo (db ! j)) \<noteq> lower t)
    \<and> obj = \<lparr>titulo = titulo nota, contenido = contenido nota, autor = autor nota,
              categoria = categoria nota, importante = importante nota,
              fecha_creacion = fecha_creacion (db ! i), fecha_actualizacion = ahora\<rparr>
    \<and> snd (actualizar_nota ahora t nota db) = db[i := obj]
    \<and> length (snd (actualizar_nota ahora t nota db)) = length db
    \<and> (\<forall>j<length db. j \<noteq> i \<longrightarrow> snd (actualizar_nota ahora t nota db) ! j = db ! j)
    \<and> (fecha_actualizacion (db ! i) \<le> ahora \<longrightarrow>
          fecha_actualizacion (db ! i) \<le> fecha_actualizacion obj)"
proof (cases "\<exists>n\<in>set db. lower (titulo n) = lower t")
  case False
  with ok show ?thesis by (simp add: actualizar_nota_ninguna)
next
  case True
  then obtain xs n ys where db: "db = xs @ n # ys" and n: "lower (titulo n) = lower t"
    and xs: "\<forall>x\<in>set xs. lower (titulo x) \<noteq> lower t" by (rule primera_coincidencia)
  let ?i = "length xs"
  let ?o = "\<lparr>titulo = titulo nota, contenido = contenido nota, autor = autor nota,
              categoria = categoria nota, importante = importante nota,
              fecha_creacion = fecha_creacion n, fecha_actualizacion = ahora\<rparr>"
  from ok have res: "actualizar_nota ahora t nota db = (Inr ?o, xs @ ?o # ys)" and obj: "obj = ?o"
    unfolding db actualizar_nota_primera[OF xs n] by (auto split: if_splits)
  have 1: "?i < length db" using db by simp
  have 2: "db ! ?i = n" using db by simp
  have 3: "\<forall>j<?i. lower (titulo (db ! j)) \<noteq> lower t" using xs db by (simp add: nth_append)
  have 4: "snd (actualizar_nota ahora t nota db) = db[?i := obj]"
    using res obj db by simp
  have 5: "\<forall>j<length db. j \<noteq> ?i \<longrightarrow> db[?i := obj] ! j = db ! j" by simp
  have 6: "fecha_actualizacion obj = ahora" using obj by simp
  show ?thesis
    apply (rule exI[of _ ?i])
    using 1 2 3 4 5 6 n obj by simp
qed

theorem actualizar_en_su_sitio_witness:
  "fst (actualizar_nota 20 ''shopping'' peticion_COMPRAS (ejecutar dos_notas)) =
     Inr \<lparr>titulo = ''SHOPPING'', contenido = ''Bread'', autor = ''Dave'',
          categoria = Some ''Personal'', importante = Some False,
          fecha_creacion = 11, fecha_actualizacion = 20\<rparr>
 \<and> (\<exists>i<length (ejecutar dos_notas).
       snd (actualizar_nota 20 ''shopping'' peticion_COMPRAS (ejecutar dos_notas)) =
         (ejecutar dos_notas)[i := \<lparr>titulo = ''SHOPPING'', contenido = ''Bread'', autor = ''Dave'',
          categoria = Some ''Personal'', importante = Some False,
          fecha_creacion = 11, fecha_actualizacion = 20\<rparr>]
     \<and> lower (titulo (ejecutar dos_notas ! i)) = lower ''shopping'')"
proof -
  have h: "fst (actualizar_nota 20 ''shopping'' peticion_COMPRAS (ejecutar dos_notas)) =
     Inr \<lparr>titulo = ''SHOPPING'', contenido = ''Bread'', autor = ''Dave'',
          categoria = Some ''Personal'', importante = Some False,
          fecha_creacion = 11, fecha_actualizacion = 20\<rparr>" by code_simp
  from actualizar_en_su_sitio[OF h] h show ?thesis by blast
qed

subsection \<open>C7: delete, then get\<close>

text \<open>
  C7. In a state that the service can reach, when the note at index \<open>i\<close> matches the title,
  \<open>eliminar_nota\<close> removes the note at that index and no other, returns that note as it was
  together with the message, and \<open>obtener_nota\<close> with the same title then fails with not
  found. When no note matches the title, \<open>eliminar_nota\<close> fails with not found.
\<close>

theorem eliminar_y_obtener:
  assumes db: "db = ejecutar ps"
  shows "(i < length db \<and> lower (titulo (db ! i)) = lower t \<longrightarrow>
            eliminar_nota t db =
              (Inr \<lparr>mensaje = ''Nota eliminada exitosamente'', nota_eliminada = db ! i\<rparr>,
               take i db @ drop (Suc i) db)
          \<and> obtener_nota t (snd (eliminar_nota t db)) = Inl NoEncontrada)
       \<and> ((\<forall>n\<in>set db. lower (titulo n) \<noteq> lower t) \<longrightarrow>
            eliminar_nota t db = (Inl NoEncontrada, db))"
proof (intro conjI impI)
  assume a: "i < length db \<and> lower (titulo (db ! i)) = lower t"
  then have i: "i < length db" and ti: "lower (titulo (db ! i)) = lower t" by simp_all
  have u: "titulos_unicos db" using db by (simp add: unicos_ejecutar)
  let ?xs = "take i db" and ?ys = "drop (Suc i) db"
  note split = unicos_primera(1)[OF u i ti] and xs = unicos_primera(2)[OF u i ti]
    and ys = unicos_primera(3)[OF u i ti]
  show r: "eliminar_nota t db =
              (Inr \<lparr>mensaje = ''Nota eliminada exitosamente'', nota_eliminada = db ! i\<rparr>,
               take i db @ drop (Suc i) db)"
    using eliminar_nota_primera[OF xs ti, of ?ys, folded split] .
  from xs ys have "\<forall>n\<in>set (?xs @ ?ys). lower (titulo n) \<noteq> lower t" by auto
  then show "obtener_nota t (snd (eliminar_nota t db)) = Inl NoEncontrada"
    unfolding r by (simp only: snd_conv obtener_nota_ninguna)
next
  assume a: "\<forall>n\<in>set db. lower (titulo n) \<noteq> lower t"
  then show "eliminar_nota t db = (Inl NoEncontrada, db)" by (rule eliminar_nota_ninguna)
qed

theorem eliminar_y_obtener_witness:
  "(0::nat) < length (ejecutar dos_notas)
 \<and> lower (titulo (ejecutar dos_notas ! 0)) = lower ''TODO''
 \<and> eliminar_nota ''TODO'' (ejecutar dos_notas) =
      (Inr \<lparr>mensaje = ''Nota eliminada exitosamente'', nota_eliminada = ejecutar dos_notas ! 0\<rparr>,
       take 0 (ejecutar dos_notas) @ drop (Suc 0) (ejecutar dos_notas))
 \<and> obtener_nota ''TODO'' (snd (eliminar_nota ''TODO'' (ejecutar dos_notas))) = Inl NoEncontrada
 \<and> \<not> (\<exists>n\<in>set (ejecutar dos_notas). lower (titulo n) = lower ''nada'')
 \<and> eliminar_nota ''nada'' (ejecutar dos_notas) = (Inl NoEncontrada, ejecutar dos_notas)"
proof -
  have i: "(0::nat) < length (ejecutar dos_notas)
     \<and> lower (titulo (ejecutar dos_notas ! 0)) = lower ''TODO''" by code_simp
  have n': "\<not> (\<exists>n\<in>set (ejecutar dos_notas). lower (titulo n) = lower ''nada'')"
    by code_simp
  then have n: "\<forall>n\<in>set (ejecutar dos_notas). lower (titulo n) \<noteq> lower ''nada''" by blast
  note t1 = eliminar_y_obtener[OF refl, of 0 dos_notas "''TODO''"]
  note t2 = eliminar_y_obtener[OF refl, of 0 dos_notas "''nada''"]
  from t1 i have a: "eliminar_nota ''TODO'' (ejecutar dos_notas) =
      (Inr \<lparr>mensaje = ''Nota eliminada exitosamente'', nota_eliminada = ejecutar dos_notas ! 0\<rparr>,
       take 0 (ejecutar dos_notas) @ drop (Suc 0) (ejecutar dos_notas))
     \<and> obtener_nota ''TODO'' (snd (eliminar_nota ''TODO'' (ejecutar dos_notas))) = Inl NoEncontrada"
    by blast
  from t2 n have b: "eliminar_nota ''nada'' (ejecutar dos_notas) = (Inl NoEncontrada, ejecutar dos_notas)"
    by blast
  from i a n' b show ?thesis by blast
qed

end
